theory Spec2Isabelle
  imports Complex_Main "HOL-Library.Multiset"
begin

section \<open>The Dzus panel template script\<close>

text \<open>
  \<^verbatim>\<open>make_panel.py\<close> is a straight-line script: it reads four module-level parameters,
  creates a drawing with six layers, and adds lines, arcs and circles to the model space of
  that drawing. The embedding keeps this shape. The model space is a list of primitives in
  the order of the \<^verbatim>\<open>msp.add_*\<close> calls; the script's variables \<^verbatim>\<open>last_x\<close> and
  \<^verbatim>\<open>last_y\<close> are fields of the interpreter state; every statement is a state
  transformer and every \<^verbatim>\<open>for\<close> loop a \<open>fold\<close> over the list it walks.

  Numbers: Python's floats are read as exact real numbers, so \<^verbatim>\<open>3/8\<close> is the
  fraction and \<^verbatim>\<open>inches * 25.4\<close> is an exact product. Rounding of IEEE doubles is
  outside this development.
\<close>

subsection \<open>Primitives and layers\<close>

text \<open>The six layers created with \<^verbatim>\<open>dwg.layers.new\<close>.\<close>

datatype layer =
    plate | plate_construction
  | fascia | fascia_construction
  | decal | decal_construction

type_synonym point = "real \<times> real"

text \<open>
  What the three \<^verbatim>\<open>msp.add_*\<close> calls store: \<^verbatim>\<open>add_line(start, end)\<close>,
  \<^verbatim>\<open>add_arc(center, radius, start_angle, end_angle)\<close> with the angles in degrees, the
  arc running counter-clockwise from the start angle to the end angle, and
  \<^verbatim>\<open>add_circle(center, radius)\<close>; each with its \<^verbatim>\<open>layer\<close> attribute.
\<close>

datatype primitive =
    Line point point layer
  | Arc point real int int layer
  | Circle point real layer

fun layer_of :: "primitive \<Rightarrow> layer" where
  "layer_of (Line a b l) = l"
| "layer_of (Arc c r a b l) = l"
| "layer_of (Circle c r l) = l"

fun is_line :: "primitive \<Rightarrow> bool" where
  "is_line (Line a b l) = True"
| "is_line (Arc c r a b l) = False"
| "is_line (Circle c r l) = False"


fun is_circle :: "primitive \<Rightarrow> bool" where
  "is_circle (Line a b l) = False"
| "is_circle (Arc c r a b l) = False"
| "is_circle (Circle c r l) = True"

subsection \<open>Parameters and interpreter state\<close>

text \<open>The module-level parameters \<^verbatim>\<open>w_inches\<close>, \<^verbatim>\<open>h_units\<close>, \<^verbatim>\<open>left_mount\<close>, \<^verbatim>\<open>right_mount\<close>.\<close>

record params =
  w_inches :: real
  h_units :: int
  left_mount :: "int list"
  right_mount :: "int list"

record env =
  msp :: "primitive list"
  last_x :: real
  last_y :: real

definition intomm :: "real \<Rightarrow> real" where
  "intomm inches = inches * 25.4"

text \<open>Outer dimensions of the plate in millimetres (\<^verbatim>\<open>top\<close>, \<^verbatim>\<open>bottom\<close>, \<^verbatim>\<open>left\<close>, \<^verbatim>\<open>right\<close>).\<close>

definition top_mm :: "params \<Rightarrow> real" where
  "top_mm p = intomm (real_of_int (h_units p) * (3/8))"

definition bottom_mm :: real where
  "bottom_mm = 0"

definition left_mm :: real where
  "left_mm = 0"

definition right_mm :: "params \<Rightarrow> real" where
  "right_mm p = intomm (w_inches p)"

definition add_line :: "point \<Rightarrow> point \<Rightarrow> layer \<Rightarrow> env \<Rightarrow> env" where
  "add_line a b l st = st\<lparr>msp := msp st @ [Line a b l]\<rparr>"

definition add_arc :: "point \<Rightarrow> real \<Rightarrow> int \<Rightarrow> int \<Rightarrow> layer \<Rightarrow> env \<Rightarrow> env" where
  "add_arc c r a b l st = st\<lparr>msp := msp st @ [Arc c r a b l]\<rparr>"

definition add_circle :: "point \<Rightarrow> real \<Rightarrow> layer \<Rightarrow> env \<Rightarrow> env" where
  "add_circle c r l st = st\<lparr>msp := msp st @ [Circle c r l]\<rparr>"

text \<open>A block of statements runs them in order.\<close>

definition steps :: "(env \<Rightarrow> env) list \<Rightarrow> env \<Rightarrow> env" where
  "steps fs st = fold (\<lambda>f s. f s) fs st"

text \<open>\<^verbatim>\<open>if xs: stmt\<close> runs the statement when the list is not empty.\<close>

definition when_nonempty :: "'a list \<Rightarrow> (env \<Rightarrow> env) \<Rightarrow> env \<Rightarrow> env" where
  "when_nonempty xs f st = (if xs \<noteq> [] then f st else st)"

subsection \<open>The plate\<close>

text \<open>\<^verbatim>\<open>dwg = ezdxf.new('R2010'); msp = dwg.modelspace()\<close>: a new and empty model space.\<close>

definition new_drawing :: "env \<Rightarrow> env" where
  "new_drawing st = st\<lparr>msp := []\<rparr>"

definition plate_outline :: "params \<Rightarrow> env \<Rightarrow> env" where
  "plate_outline p = steps
     [add_line (left_mm, bottom_mm) (right_mm p, bottom_mm) plate,
      add_line (right_mm p, bottom_mm) (right_mm p, top_mm p) plate,
      add_line (right_mm p, top_mm p) (left_mm, top_mm p) plate,
      add_line (left_mm, top_mm p) (left_mm, bottom_mm) plate]"

text \<open>The height of a fastener: \<^verbatim>\<open>intomm(pos * (3/8) + (3/16))\<close>.\<close>

definition fastener_y :: "int \<Rightarrow> real" where
  "fastener_y pos = intomm (real_of_int pos * (3/8) + (3/16))"

definition plate_left_body :: "params \<Rightarrow> int \<Rightarrow> env \<Rightarrow> env" where
  "plate_left_body p pos = steps
     [add_line (left_mm - 10, fastener_y pos) (right_mm p / 2, fastener_y pos) plate_construction,
      add_circle (intomm (3/16), fastener_y pos) 2 plate]"

definition plate_right_body :: "params \<Rightarrow> int \<Rightarrow> env \<Rightarrow> env" where
  "plate_right_body p pos = steps
     [add_line (right_mm p / 2, fastener_y pos) (right_mm p + 10, fastener_y pos) plate_construction,
      add_circle (right_mm p - intomm (3/16), fastener_y pos) 2 plate]"

text \<open>The vertical line through the holes of a side, drawn when the side has a hole.\<close>

definition plate_left_guide :: "params \<Rightarrow> env \<Rightarrow> env" where
  "plate_left_guide p =
     when_nonempty (left_mount p)
       (add_line (intomm (3/16), bottom_mm - 10) (intomm (3/16), top_mm p + 10) plate_construction)"

definition plate_right_guide :: "params \<Rightarrow> env \<Rightarrow> env" where
  "plate_right_guide p =
     when_nonempty (right_mount p)
       (add_line (right_mm p - intomm (3/16), bottom_mm - 10)
                 (right_mm p - intomm (3/16), top_mm p + 10) plate_construction)"

definition plate_holes_left :: "params \<Rightarrow> env \<Rightarrow> env" where
  "plate_holes_left p = steps
     [plate_left_guide p,
      fold (plate_left_body p) (left_mount p)]"

definition plate_holes_right :: "params \<Rightarrow> env \<Rightarrow> env" where
  "plate_holes_right p = steps
     [plate_right_guide p,
      fold (plate_right_body p) (right_mount p)]"

subsection \<open>The fascia\<close>

definition fascia_outline :: "params \<Rightarrow> env \<Rightarrow> env" where
  "fascia_outline p = steps
     [add_arc (intomm (2/32), intomm (2/32)) (intomm (1/32)) 180 270 fascia,
      add_line (left_mm + intomm (2/32), bottom_mm + intomm (1/32))
               (right_mm p - intomm (2/32), bottom_mm + intomm (1/32)) fascia,
      add_arc (right_mm p - intomm (2/32), intomm (2/32)) (intomm (1/32)) 270 0 fascia,
      add_arc (intomm (2/32), top_mm p - intomm (2/32)) (intomm (1/32)) 90 180 fascia,
      add_line (left_mm + intomm (2/32), top_mm p - intomm (1/32))
               (right_mm p - intomm (2/32), top_mm p - intomm (1/32)) fascia,
      add_arc (right_mm p - intomm (2/32), top_mm p - intomm (2/32)) (intomm (1/32)) 0 90 fascia]"

definition fascia_centre :: "params \<Rightarrow> env \<Rightarrow> env" where
  "fascia_centre p = steps
     [add_line (right_mm p / 2, bottom_mm - 10) (right_mm p / 2, top_mm p + 10) fascia_construction,
      add_line (left_mm - 10, top_mm p / 2) (right_mm p + 10, top_mm p / 2) fascia_construction]"

text \<open>
  The body of the loop over \<^verbatim>\<open>left_mount\<close>: the locating line, the line from the last
  point of the contour to the rebate, the rebate (fillet, mouth, pocket, mouth, fillet),
  and the update of \<^verbatim>\<open>last_y\<close>. \<^verbatim>\<open>last_x\<close> is not assigned in the loop.
\<close>

definition fascia_left_body :: "params \<Rightarrow> int \<Rightarrow> env \<Rightarrow> env" where
  "fascia_left_body p pos st =
     (let centre_x = intomm (3/16);
          centre_y = intomm (real_of_int pos * (3/8) + (3/16))
      in steps
        [add_line (left_mm - 10, centre_y) (right_mm p / 2, centre_y) fascia_construction,
         add_line (last_x st, last_y st)
                  (left_mm + intomm (1/32), centre_y - intomm ((3/16) + (1/16) + (1/32))) fascia,
         add_arc (left_mm + intomm (2/32), centre_y - intomm ((3/16) + (1/16) + (1/32)))
                 (intomm (1/32)) 90 180 fascia,
         add_line (left_mm + intomm (2/32), centre_y - intomm ((3/16) + (1/16)))
                  (left_mm + intomm (3/16), centre_y - intomm ((3/16) + (1/16))) fascia,
         add_arc (centre_x, centre_y) (intomm ((3/16) + (1/16))) 270 90 fascia,
         add_line (left_mm + intomm (2/32), centre_y + intomm ((3/16) + (1/16)))
                  (left_mm + intomm (3/16), centre_y + intomm ((3/16) + (1/16))) fascia,
         add_arc (left_mm + intomm (2/32), centre_y + intomm ((3/16) + (1/16) + (1/32)))
                 (intomm (1/32)) 180 270 fascia,
         (\<lambda>s. s\<lparr>last_y := centre_y + intomm ((3/16) + (1/16) + (1/32))\<rparr>)] st)"

text \<open>
  Around the loop: the start of the contour at the bottom corner and the vertical line
  through the fasteners before it, the line up to the top corner after it.
\<close>

definition fascia_left_start :: "params \<Rightarrow> env \<Rightarrow> env" where
  "fascia_left_start p = steps
     [(\<lambda>s. s\<lparr>last_x := left_mm + intomm (1/32)\<rparr>),
      (\<lambda>s. s\<lparr>last_y := intomm (2/32)\<rparr>),
      when_nonempty (left_mount p)
        (add_line (intomm (3/16), bottom_mm - 10) (intomm (3/16), top_mm p + 10) fascia_construction)]"

definition fascia_left_close :: "params \<Rightarrow> env \<Rightarrow> env" where
  "fascia_left_close p s =
     add_line (last_x s, last_y s) (intomm (1/32), top_mm p - intomm (2/32)) fascia s"

definition fascia_left :: "params \<Rightarrow> env \<Rightarrow> env" where
  "fascia_left p = steps
     [fascia_left_start p,
      fold (fascia_left_body p) (left_mount p),
      fascia_left_close p]"

definition fascia_right_body :: "params \<Rightarrow> int \<Rightarrow> env \<Rightarrow> env" where
  "fascia_right_body p pos st =
     (let centre_x = right_mm p - intomm (3/16);
          centre_y = intomm (real_of_int pos * (3/8) + (3/16))
      in steps
        [add_line (right_mm p / 2, centre_y) (right_mm p + 10, centre_y) fascia_construction,
         add_line (last_x st, last_y st)
                  (right_mm p - intomm (1/32), centre_y - intomm ((3/16) + (1/16) + (1/32))) fascia,
         add_arc (right_mm p - intomm (2/32), centre_y - intomm ((3/16) + (1/16) + (1/32)))
                 (intomm (1/32)) 0 90 fascia,
         add_line (right_mm p - intomm (2/32), centre_y - intomm ((3/16) + (1/16)))
                  (right_mm p - intomm (3/16), centre_y - intomm ((3/16) + (1/16))) fascia,
         add_arc (centre_x, centre_y) (intomm ((3/16) + (1/16))) 90 270 fascia,
         add_line (right_mm p - intomm (2/32), centre_y + intomm ((3/16) + (1/16)))
                  (right_mm p - intomm (3/16), centre_y + intomm ((3/16) + (1/16))) fascia,
         add_arc (right_mm p - intomm (2/32), centre_y + intomm ((3/16) + (1/16) + (1/32)))
                 (intomm (1/32)) 270 0 fascia,
         (\<lambda>s. s\<lparr>last_y := centre_y + intomm ((3/16) + (1/16) + (1/32))\<rparr>)] st)"

definition fascia_right_start :: "params \<Rightarrow> env \<Rightarrow> env" where
  "fascia_right_start p = steps
     [(\<lambda>s. s\<lparr>last_x := right_mm p - intomm (1/32)\<rparr>),
      (\<lambda>s. s\<lparr>last_y := intomm (2/32)\<rparr>),
      when_nonempty (right_mount p)
        (add_line (right_mm p - intomm (3/16), bottom_mm - 10)
                  (right_mm p - intomm (3/16), top_mm p + 10) fascia_construction)]"

definition fascia_right_close :: "params \<Rightarrow> env \<Rightarrow> env" where
  "fascia_right_close p s =
     add_line (last_x s, last_y s)
              (right_mm p - intomm (1/32), top_mm p - intomm (2/32)) fascia s"

definition fascia_right :: "params \<Rightarrow> env \<Rightarrow> env" where
  "fascia_right p = steps
     [fascia_right_start p,
      fold (fascia_right_body p) (right_mount p),
      fascia_right_close p]"

subsection \<open>The centreline for the panel name, and the whole script\<close>

definition decal_centreline :: "params \<Rightarrow> env \<Rightarrow> env" where
  "decal_centreline p =
     add_line (left_mm - 10, top_mm p - intomm (13/64))
              (right_mm p + 10, top_mm p - intomm (13/64)) decal_construction"

definition make_panel :: "params \<Rightarrow> env \<Rightarrow> env" where
  "make_panel p = steps
     [new_drawing,
      plate_outline p,
      plate_holes_left p,
      plate_holes_right p,
      fascia_outline p,
      fascia_centre p,
      fascia_left p,
      fascia_right p,
      decal_centreline p]"

text \<open>
  The model space that \<^verbatim>\<open>dwg.saveas\<close> writes, for a run started in a fresh interpreter.
\<close>

definition fresh :: env where
  "fresh = \<lparr>msp = [], last_x = 0, last_y = 0\<rparr>"

definition emitted :: "(env \<Rightarrow> env) \<Rightarrow> primitive list" where
  "emitted f = msp (f fresh)"

definition drawing :: "params \<Rightarrow> primitive list" where
  "drawing p = emitted (make_panel p)"


subsection \<open>Conversions that can fail\<close>

text \<open>
  \<^verbatim>\<open>w_inches\<close> is a double; \<^verbatim>\<open>h_units\<close> and the fastener positions are Python
  integers, of any size. In
  \<^verbatim>\<open>h_units * (3/8)\<close> and \<^verbatim>\<open>pos * (3/8)\<close> the integer is first converted to a double,
  rounding to nearest. The largest double is \<open>2 ^ 1024 - 2 ^ 971\<close>; an integer whose absolute
  value is \<open>2 ^ 1024 - 2 ^ 970\<close> or more does not round to a double, and the conversion raises
  \<^verbatim>\<open>OverflowError\<close> (int too large to convert to float). This is the only exception that
  a statement of the script can raise: the script has no \<^verbatim>\<open>raise\<close> statement and no
  test on its parameters, and arithmetic on doubles does not raise. The other three errors
  are those that the specification names; no statement of the script produces them.
\<close>

datatype error = OverflowError | InvalidDimension | InvalidFastenerPosition | DegenerateRebate

definition fits_double :: "int \<Rightarrow> bool" where
  "fits_double n = (\<bar>n\<bar> < 2 ^ 1024 - 2 ^ 970)"

definition to_float :: "int \<Rightarrow> error + real" where
  "to_float n = (if fits_double n then Inr (real_of_int n) else Inl OverflowError)"

text \<open>
  A block of statements, each of which may raise: the first exception ends the run. A
  statement without a conversion always continues. A statement that converts the integer
  \<open>n\<close> raises when the conversion does, before it changes the state, and otherwise does
  what the statement does with \<open>real_of_int n\<close>.
\<close>

fun steps_checked :: "(env \<Rightarrow> error + env) list \<Rightarrow> env \<Rightarrow> error + env" where
  "steps_checked [] st = Inr st"
| "steps_checked (f # fs) st = (case f st of Inl e \<Rightarrow> Inl e | Inr st' \<Rightarrow> steps_checked fs st')"

definition plain :: "(env \<Rightarrow> env) \<Rightarrow> env \<Rightarrow> error + env" where
  "plain f st = Inr (f st)"

definition converting :: "int \<Rightarrow> (env \<Rightarrow> env) \<Rightarrow> env \<Rightarrow> error + env" where
  "converting n f st = (case to_float n of Inl e \<Rightarrow> Inl e | Inr x \<Rightarrow> Inr (f st))"

definition for_each :: "(int \<Rightarrow> env \<Rightarrow> error + env) \<Rightarrow> int list \<Rightarrow> env \<Rightarrow> error + env" where
  "for_each f xs = steps_checked (map f xs)"

text \<open>
  The script with its conversions. Line 66 converts \<^verbatim>\<open>h_units\<close> before anything is
  drawn; each pass of the four loops converts its position (lines 85, 92, 142 and 178)
  before it draws.
\<close>

definition dimensions_checked :: "params \<Rightarrow> env \<Rightarrow> error + env" where
  "dimensions_checked p = converting (h_units p) (\<lambda>s. s)"

definition plate_holes_left_checked :: "params \<Rightarrow> env \<Rightarrow> error + env" where
  "plate_holes_left_checked p = steps_checked
     [plain (plate_left_guide p),
      for_each (\<lambda>pos. converting pos (plate_left_body p pos)) (left_mount p)]"

definition plate_holes_right_checked :: "params \<Rightarrow> env \<Rightarrow> error + env" where
  "plate_holes_right_checked p = steps_checked
     [plain (plate_right_guide p),
      for_each (\<lambda>pos. converting pos (plate_right_body p pos)) (right_mount p)]"

definition fascia_left_checked :: "params \<Rightarrow> env \<Rightarrow> error + env" where
  "fascia_left_checked p = steps_checked
     [plain (fascia_left_start p),
      for_each (\<lambda>pos. converting pos (fascia_left_body p pos)) (left_mount p),
      plain (fascia_left_close p)]"

definition fascia_right_checked :: "params \<Rightarrow> env \<Rightarrow> error + env" where
  "fascia_right_checked p = steps_checked
     [plain (fascia_right_start p),
      for_each (\<lambda>pos. converting pos (fascia_right_body p pos)) (right_mount p),
      plain (fascia_right_close p)]"

definition make_panel_checked :: "params \<Rightarrow> env \<Rightarrow> error + env" where
  "make_panel_checked p = steps_checked
     [plain new_drawing,
      dimensions_checked p,
      plain (plate_outline p),
      plate_holes_left_checked p,
      plate_holes_right_checked p,
      plain (fascia_outline p),
      plain (fascia_centre p),
      fascia_left_checked p,
      fascia_right_checked p,
      plain (decal_centreline p)]"

text \<open>
  The outcome of a run in a fresh interpreter: the exception that ended it, or the model
  space that \<^verbatim>\<open>dwg.saveas\<close> writes.
\<close>

definition run_script :: "params \<Rightarrow> error + primitive list" where
  "run_script p =
     (case make_panel_checked p fresh of Inl e \<Rightarrow> Inl e | Inr st \<Rightarrow> Inr (msp st))"

text \<open>Every integer parameter converts to a double.\<close>

definition ints_fit :: "params \<Rightarrow> bool" where
  "ints_fit p =
     (fits_double (h_units p) \<and> list_all fits_double (left_mount p) \<and>
      list_all fits_double (right_mount p))"

section \<open>Notions used to state the properties\<close>

subsection \<open>What one pass of a rebate loop emits\<close>

text \<open>
  The primitives that one pass of the loop over \<^verbatim>\<open>left_mount\<close> (or
  \<^verbatim>\<open>right_mount\<close>) adds when it starts with the contour at \<open>(lx, ly)\<close>, the value it
  leaves in \<^verbatim>\<open>last_y\<close>, and the same for the whole loop.
\<close>

definition rebate_exit :: "int \<Rightarrow> real" where
  "rebate_exit pos = intomm (real_of_int pos * (3/8) + (3/16)) + intomm ((3/16) + (1/16) + (1/32))"

definition left_pass :: "params \<Rightarrow> real \<Rightarrow> real \<Rightarrow> int \<Rightarrow> primitive list" where
  "left_pass p lx ly pos = msp (fascia_left_body p pos \<lparr>msp = [], last_x = lx, last_y = ly\<rparr>)"

definition right_pass :: "params \<Rightarrow> real \<Rightarrow> real \<Rightarrow> int \<Rightarrow> primitive list" where
  "right_pass p lx ly pos = msp (fascia_right_body p pos \<lparr>msp = [], last_x = lx, last_y = ly\<rparr>)"

fun left_walk :: "params \<Rightarrow> real \<Rightarrow> real \<Rightarrow> int list \<Rightarrow> primitive list" where
  "left_walk p lx ly [] = []"
| "left_walk p lx ly (pos # ps) = left_pass p lx ly pos @ left_walk p lx (rebate_exit pos) ps"

fun right_walk :: "params \<Rightarrow> real \<Rightarrow> real \<Rightarrow> int list \<Rightarrow> primitive list" where
  "right_walk p lx ly [] = []"
| "right_walk p lx ly (pos # ps) = right_pass p lx ly pos @ right_walk p lx (rebate_exit pos) ps"

fun walk_exit :: "real \<Rightarrow> int list \<Rightarrow> real" where
  "walk_exit ly [] = ly"
| "walk_exit ly (pos # ps) = walk_exit (rebate_exit pos) ps"

definition on_layer :: "layer \<Rightarrow> primitive list \<Rightarrow> primitive list" where
  "on_layer l qs = filter (\<lambda>q. layer_of q = l) qs"

text \<open>The script's own parameter values (lines 34 to 41).\<close>

definition scenario_A :: params where
  "scenario_A = \<lparr>w_inches = 5.75, h_units = 9, left_mount = [1, 7], right_mount = [1, 7]\<rparr>"

text \<open>The same panel with the left positions out of order, and a panel of height 0.\<close>

definition scenario_C :: params where
  "scenario_C = \<lparr>w_inches = 5.75, h_units = 9, left_mount = [7, 1], right_mount = [1, 7]\<rparr>"

definition scenario_D :: params where
  "scenario_D = \<lparr>w_inches = 5.75, h_units = 0, left_mount = [], right_mount = []\<rparr>"

text \<open>Fastener positions strictly ascending and inside \<open>(0, height)\<close>.\<close>

definition valid_positions :: "int \<Rightarrow> int list \<Rightarrow> bool" where
  "valid_positions h ps = (sorted_wrt (<) ps \<and> list_all (\<lambda>pos. 0 < pos \<and> pos < h) ps)"

subsection \<open>End points and contours\<close>

text \<open>
  The point of a circle of centre \<open>c\<close> and radius \<open>r\<close> at \<open>a\<close> degrees, counter-clockwise
  from the positive x axis. An arc starts at its start angle and ends at its end angle.
\<close>

definition arc_point :: "point \<Rightarrow> real \<Rightarrow> int \<Rightarrow> point" where
  "arc_point c r a =
     (fst c + r * cos (real_of_int a * pi / 180), snd c + r * sin (real_of_int a * pi / 180))"



text \<open>
  A primitive with a direction of travel: \<open>False\<close> from its start point to its end point,
  \<open>True\<close> from its end point to its start point.
\<close>

type_synonym oriented = "primitive \<times> bool"



text \<open>Two points at distance at most \<open>eps\<close> (for \<open>eps \<ge> 0\<close>).\<close>

definition near :: "real \<Rightarrow> point \<Rightarrow> point \<Rightarrow> bool" where
  "near eps a b = ((fst a - fst b)\<^sup>2 + (snd a - snd b)\<^sup>2 \<le> eps\<^sup>2)"




text \<open>The same path walked the other way.\<close>

definition backwards :: "oriented list \<Rightarrow> oriented list" where
  "backwards xs = rev (map (\<lambda>x. (fst x, \<not> snd x)) xs)"

subsection \<open>A walk around the fascia\<close>

text \<open>
  The direction in which each of the six fascia primitives of one pass is walked when the
  side is climbed from the bottom: on the right the pocket arc and the upper mouth line are
  walked against their direction, on the left the two fillets and the upper mouth line.
\<close>

definition right_flags :: "bool list" where
  "right_flags = [False, False, False, True, True, False]"

definition left_flags :: "bool list" where
  "left_flags = [False, True, False, False, True, True]"

fun right_tour :: "params \<Rightarrow> real \<Rightarrow> real \<Rightarrow> int list \<Rightarrow> oriented list" where
  "right_tour p lx ly [] = []"
| "right_tour p lx ly (pos # ps) =
     zip (on_layer fascia (right_pass p lx ly pos)) right_flags @ right_tour p lx (rebate_exit pos) ps"

fun left_tour :: "params \<Rightarrow> real \<Rightarrow> real \<Rightarrow> int list \<Rightarrow> oriented list" where
  "left_tour p lx ly [] = []"
| "left_tour p lx ly (pos # ps) =
     zip (on_layer fascia (left_pass p lx ly pos)) left_flags @ left_tour p lx (rebate_exit pos) ps"

text \<open>Each side from the bottom corner to the top corner, ending with the closing line.\<close>

definition up_right :: "params \<Rightarrow> oriented list" where
  "up_right p =
     right_tour p (right_mm p - intomm (1/32)) (intomm (2/32)) (right_mount p) @
     [(last (emitted (fascia_right p)), False)]"

definition up_left :: "params \<Rightarrow> oriented list" where
  "up_left p =
     left_tour p (left_mm + intomm (1/32)) (intomm (2/32)) (left_mount p) @
     [(last (emitted (fascia_left p)), False)]"


subsection \<open>Shapes of primitives\<close>

text \<open>A circle whose centre is within \<open>tol\<close> of the height \<open>y\<close>.\<close>

fun hole_near :: "real \<Rightarrow> real \<Rightarrow> primitive \<Rightarrow> bool" where
  "hole_near y tol (Circle c r l) = (\<bar>snd c - y\<bar> \<le> tol)"
| "hole_near y tol (Line a b l) = False"
| "hole_near y tol (Arc c r a b l) = False"

text \<open>The wall of a rebate: an arc of radius 3/16 + 1/16 inch.\<close>

fun is_pocket :: "primitive \<Rightarrow> bool" where
  "is_pocket (Arc c r a b l) = (r = intomm ((3/16) + (1/16)))"
| "is_pocket (Line a b l) = False"
| "is_pocket (Circle c r l) = False"


definition is_construction :: "layer \<Rightarrow> bool" where
  "is_construction l = (l = plate_construction \<or> l = fascia_construction \<or> l = decal_construction)"

text \<open>
  The four shapes of a construction line: vertical over the whole height and 10 mm more at
  each end; horizontal over the whole width and 10 mm more at each end; horizontal at the
  height of a fastener of the left (right) side, between 10 mm outside the left (right)
  edge and the midline.
\<close>

fun full_vertical :: "params \<Rightarrow> primitive \<Rightarrow> bool" where
  "full_vertical p (Line a b l) = (fst a = fst b \<and> snd a = - 10 \<and> snd b = top_mm p + 10)"
| "full_vertical p (Arc c r a b l) = False"
| "full_vertical p (Circle c r l) = False"

fun full_horizontal :: "params \<Rightarrow> primitive \<Rightarrow> bool" where
  "full_horizontal p (Line a b l) = (snd a = snd b \<and> fst a = - 10 \<and> fst b = right_mm p + 10)"
| "full_horizontal p (Arc c r a b l) = False"
| "full_horizontal p (Circle c r l) = False"

fun fastener_line_left :: "params \<Rightarrow> primitive \<Rightarrow> bool" where
  "fastener_line_left p (Line a b l) =
     (snd a = snd b \<and> snd a \<in> fastener_y ` set (left_mount p) \<and>
      fst a = - 10 \<and> fst b = right_mm p / 2)"
| "fastener_line_left p (Arc c r a b l) = False"
| "fastener_line_left p (Circle c r l) = False"

fun fastener_line_right :: "params \<Rightarrow> primitive \<Rightarrow> bool" where
  "fastener_line_right p (Line a b l) =
     (snd a = snd b \<and> snd a \<in> fastener_y ` set (right_mount p) \<and>
      fst a = right_mm p / 2 \<and> fst b = right_mm p + 10)"
| "fastener_line_right p (Arc c r a b l) = False"
| "fastener_line_right p (Circle c r l) = False"

subsection \<open>Reflection in the vertical midline\<close>

text \<open>
  The reflection \<open>x \<mapsto> w - x\<close>. It turns a counter-clockwise arc from \<open>a\<close> to \<open>b\<close> degrees
  into the counter-clockwise arc from \<open>180 - b\<close> to \<open>180 - a\<close> degrees, angles taken in
  \<open>[0, 360)\<close>.
\<close>

fun mirror_point :: "real \<Rightarrow> point \<Rightarrow> point" where
  "mirror_point w (x, y) = (w - x, y)"

definition mirror_angle :: "int \<Rightarrow> int" where
  "mirror_angle a = (180 - a) mod 360"

fun mirror_prim :: "real \<Rightarrow> primitive \<Rightarrow> primitive" where
  "mirror_prim w (Line a b l) = Line (mirror_point w a) (mirror_point w b) l"
| "mirror_prim w (Arc c r a b l) = Arc (mirror_point w c) r (mirror_angle b) (mirror_angle a) l"
| "mirror_prim w (Circle c r l) = Circle (mirror_point w c) r l"

text \<open>Two primitives with the same points: equal, or the same segment with its ends swapped.\<close>

fun same_points :: "primitive \<Rightarrow> primitive \<Rightarrow> bool" where
  "same_points (Line a b l) (Line c d m) = (l = m \<and> ((a = c \<and> b = d) \<or> (a = d \<and> b = c)))"
| "same_points (Arc c r a b l) q = (q = Arc c r a b l)"
| "same_points (Circle c r l) q = (q = Circle c r l)"
| "same_points (Line a b l) q = False"

definition mirrored :: "real \<Rightarrow> primitive \<Rightarrow> primitive \<Rightarrow> bool" where
  "mirrored w q q' = same_points (mirror_prim w q) q'"

subsection \<open>The points of a primitive\<close>

text \<open>
  The sweep in degrees of the counter-clockwise arc from \<open>a\<close> to \<open>b\<close> degrees, between 1 and
  360; the point of a circle at \<open>t\<close> degrees; and the set of points of a segment, of an arc
  and of a circle.
\<close>

definition arc_sweep :: "int \<Rightarrow> int \<Rightarrow> int" where
  "arc_sweep a b = (b - a - 1) mod 360 + 1"

definition ray :: "point \<Rightarrow> real \<Rightarrow> real \<Rightarrow> point" where
  "ray c r t = (fst c + r * cos (t * pi / 180), snd c + r * sin (t * pi / 180))"

fun points_of :: "primitive \<Rightarrow> point set" where
  "points_of (Line a b l) =
     (\<lambda>t. (fst a + t * (fst b - fst a), snd a + t * (snd b - snd a))) ` {0..1}"
| "points_of (Arc c r a b l) =
     ray c r ` {real_of_int a .. real_of_int a + real_of_int (arc_sweep a b)}"
| "points_of (Circle c r l) = range (ray c r)"


text \<open>
  \<open>q'\<close> is the reflection of \<open>q\<close> in the line \<open>x = w / 2\<close>: the same layer and the reflected
  points.
\<close>

definition reflects :: "real \<Rightarrow> primitive \<Rightarrow> primitive \<Rightarrow> bool" where
  "reflects w q q' = (layer_of q' = layer_of q \<and> points_of q' = mirror_point w ` points_of q)"

section \<open>What the script emits\<close>

lemma steps_Nil [simp]: "steps [] st = st"
  by (simp add: steps_def)

lemma steps_Cons [simp]: "steps (f # fs) st = steps fs (f st)"
  by (simp add: steps_def)

lemma msp_add_line [simp]: "msp (add_line a b l st) = msp st @ [Line a b l]"
  and last_x_add_line [simp]: "last_x (add_line a b l st) = last_x st"
  and last_y_add_line [simp]: "last_y (add_line a b l st) = last_y st"
  by (simp_all add: add_line_def)

lemma msp_add_arc [simp]: "msp (add_arc c r a b l st) = msp st @ [Arc c r a b l]"
  and last_x_add_arc [simp]: "last_x (add_arc c r a b l st) = last_x st"
  and last_y_add_arc [simp]: "last_y (add_arc c r a b l st) = last_y st"
  by (simp_all add: add_arc_def)

lemma msp_add_circle [simp]: "msp (add_circle c r l st) = msp st @ [Circle c r l]"
  and last_x_add_circle [simp]: "last_x (add_circle c r l st) = last_x st"
  and last_y_add_circle [simp]: "last_y (add_circle c r l st) = last_y st"
  by (simp_all add: add_circle_def)

lemma left_pass_eq:
  "left_pass p lx ly pos =
    [Line (left_mm - 10, fastener_y pos) (right_mm p / 2, fastener_y pos) fascia_construction,
     Line (lx, ly) (left_mm + intomm (1/32), fastener_y pos - intomm ((3/16) + (1/16) + (1/32))) fascia,
     Arc (left_mm + intomm (2/32), fastener_y pos - intomm ((3/16) + (1/16) + (1/32))) (intomm (1/32)) 90 180 fascia,
     Line (left_mm + intomm (2/32), fastener_y pos - intomm ((3/16) + (1/16)))
          (left_mm + intomm (3/16), fastener_y pos - intomm ((3/16) + (1/16))) fascia,
     Arc (intomm (3/16), fastener_y pos) (intomm ((3/16) + (1/16))) 270 90 fascia,
     Line (left_mm + intomm (2/32), fastener_y pos + intomm ((3/16) + (1/16)))
          (left_mm + intomm (3/16), fastener_y pos + intomm ((3/16) + (1/16))) fascia,
     Arc (left_mm + intomm (2/32), fastener_y pos + intomm ((3/16) + (1/16) + (1/32))) (intomm (1/32)) 180 270 fascia]"
  by (simp add: left_pass_def fascia_left_body_def fastener_y_def Let_def)

lemma right_pass_eq:
  "right_pass p lx ly pos =
    [Line (right_mm p / 2, fastener_y pos) (right_mm p + 10, fastener_y pos) fascia_construction,
     Line (lx, ly) (right_mm p - intomm (1/32), fastener_y pos - intomm ((3/16) + (1/16) + (1/32))) fascia,
     Arc (right_mm p - intomm (2/32), fastener_y pos - intomm ((3/16) + (1/16) + (1/32))) (intomm (1/32)) 0 90 fascia,
     Line (right_mm p - intomm (2/32), fastener_y pos - intomm ((3/16) + (1/16)))
          (right_mm p - intomm (3/16), fastener_y pos - intomm ((3/16) + (1/16))) fascia,
     Arc (right_mm p - intomm (3/16), fastener_y pos) (intomm ((3/16) + (1/16))) 90 270 fascia,
     Line (right_mm p - intomm (2/32), fastener_y pos + intomm ((3/16) + (1/16)))
          (right_mm p - intomm (3/16), fastener_y pos + intomm ((3/16) + (1/16))) fascia,
     Arc (right_mm p - intomm (2/32), fastener_y pos + intomm ((3/16) + (1/16) + (1/32))) (intomm (1/32)) 270 0 fascia]"
  by (simp add: right_pass_def fascia_right_body_def fastener_y_def Let_def)

lemma fascia_left_body_eq:
  "fascia_left_body p pos st =
     st\<lparr>msp := msp st @ left_pass p (last_x st) (last_y st) pos, last_y := rebate_exit pos\<rparr>"
  by (simp add: left_pass_def fascia_left_body_def Let_def rebate_exit_def add_line_def add_arc_def)

lemma fascia_right_body_eq:
  "fascia_right_body p pos st =
     st\<lparr>msp := msp st @ right_pass p (last_x st) (last_y st) pos, last_y := rebate_exit pos\<rparr>"
  by (simp add: right_pass_def fascia_right_body_def Let_def rebate_exit_def add_line_def add_arc_def)

lemma fold_fascia_left_body:
  "fold (fascia_left_body p) ps st =
     st\<lparr>msp := msp st @ left_walk p (last_x st) (last_y st) ps, last_y := walk_exit (last_y st) ps\<rparr>"
  by (induction ps arbitrary: st) (simp_all add: fascia_left_body_eq)

lemma fold_fascia_right_body:
  "fold (fascia_right_body p) ps st =
     st\<lparr>msp := msp st @ right_walk p (last_x st) (last_y st) ps, last_y := walk_exit (last_y st) ps\<rparr>"
  by (induction ps arbitrary: st) (simp_all add: fascia_right_body_eq)

lemma fold_plate_left_body:
  "fold (plate_left_body p) ps st =
     st\<lparr>msp := msp st @ concat (map (\<lambda>pos.
        [Line (left_mm - 10, fastener_y pos) (right_mm p / 2, fastener_y pos) plate_construction,
         Circle (intomm (3/16), fastener_y pos) 2 plate]) ps)\<rparr>"
  by (induction ps arbitrary: st) (simp_all add: plate_left_body_def add_line_def add_circle_def)

lemma fold_plate_right_body:
  "fold (plate_right_body p) ps st =
     st\<lparr>msp := msp st @ concat (map (\<lambda>pos.
        [Line (right_mm p / 2, fastener_y pos) (right_mm p + 10, fastener_y pos) plate_construction,
         Circle (right_mm p - intomm (3/16), fastener_y pos) 2 plate]) ps)\<rparr>"
  by (induction ps arbitrary: st) (simp_all add: plate_right_body_def add_line_def add_circle_def)

lemma emitted_plate_outline:
  "emitted (plate_outline p) =
     [Line (left_mm, bottom_mm) (right_mm p, bottom_mm) plate,
      Line (right_mm p, bottom_mm) (right_mm p, top_mm p) plate,
      Line (right_mm p, top_mm p) (left_mm, top_mm p) plate,
      Line (left_mm, top_mm p) (left_mm, bottom_mm) plate]"
  by (simp add: emitted_def plate_outline_def fresh_def)

lemma plate_outline_eq:
  "plate_outline p st = st\<lparr>msp := msp st @ emitted (plate_outline p)\<rparr>"
  by (simp add: emitted_plate_outline) (simp add: plate_outline_def add_line_def)

lemma emitted_plate_holes_left:
  "emitted (plate_holes_left p) =
     (if left_mount p \<noteq> []
      then [Line (intomm (3/16), bottom_mm - 10) (intomm (3/16), top_mm p + 10) plate_construction]
      else []) @
     concat (map (\<lambda>pos.
        [Line (left_mm - 10, fastener_y pos) (right_mm p / 2, fastener_y pos) plate_construction,
         Circle (intomm (3/16), fastener_y pos) 2 plate]) (left_mount p))"
  by (simp add: emitted_def plate_holes_left_def plate_left_guide_def fresh_def when_nonempty_def fold_plate_left_body)

lemma plate_holes_left_eq:
  "plate_holes_left p st = st\<lparr>msp := msp st @ emitted (plate_holes_left p)\<rparr>"
  by (simp add: emitted_plate_holes_left)
     (simp add: plate_holes_left_def plate_left_guide_def when_nonempty_def fold_plate_left_body add_line_def)

lemma emitted_plate_holes_right:
  "emitted (plate_holes_right p) =
     (if right_mount p \<noteq> []
      then [Line (right_mm p - intomm (3/16), bottom_mm - 10)
                 (right_mm p - intomm (3/16), top_mm p + 10) plate_construction]
      else []) @
     concat (map (\<lambda>pos.
        [Line (right_mm p / 2, fastener_y pos) (right_mm p + 10, fastener_y pos) plate_construction,
         Circle (right_mm p - intomm (3/16), fastener_y pos) 2 plate]) (right_mount p))"
  by (simp add: emitted_def plate_holes_right_def plate_right_guide_def fresh_def when_nonempty_def fold_plate_right_body)

lemma plate_holes_right_eq:
  "plate_holes_right p st = st\<lparr>msp := msp st @ emitted (plate_holes_right p)\<rparr>"
  by (simp add: emitted_plate_holes_right)
     (simp add: plate_holes_right_def plate_right_guide_def when_nonempty_def fold_plate_right_body add_line_def)

lemma emitted_fascia_outline:
  "emitted (fascia_outline p) =
     [Arc (intomm (2/32), intomm (2/32)) (intomm (1/32)) 180 270 fascia,
      Line (left_mm + intomm (2/32), bottom_mm + intomm (1/32))
           (right_mm p - intomm (2/32), bottom_mm + intomm (1/32)) fascia,
      Arc (right_mm p - intomm (2/32), intomm (2/32)) (intomm (1/32)) 270 0 fascia,
      Arc (intomm (2/32), top_mm p - intomm (2/32)) (intomm (1/32)) 90 180 fascia,
      Line (left_mm + intomm (2/32), top_mm p - intomm (1/32))
           (right_mm p - intomm (2/32), top_mm p - intomm (1/32)) fascia,
      Arc (right_mm p - intomm (2/32), top_mm p - intomm (2/32)) (intomm (1/32)) 0 90 fascia]"
  by (simp add: emitted_def fascia_outline_def fresh_def)

lemma fascia_outline_eq:
  "fascia_outline p st = st\<lparr>msp := msp st @ emitted (fascia_outline p)\<rparr>"
  by (simp add: emitted_fascia_outline) (simp add: fascia_outline_def add_line_def add_arc_def)

lemma emitted_fascia_centre:
  "emitted (fascia_centre p) =
     [Line (right_mm p / 2, bottom_mm - 10) (right_mm p / 2, top_mm p + 10) fascia_construction,
      Line (left_mm - 10, top_mm p / 2) (right_mm p + 10, top_mm p / 2) fascia_construction]"
  by (simp add: emitted_def fascia_centre_def fresh_def)

lemma fascia_centre_eq:
  "fascia_centre p st = st\<lparr>msp := msp st @ emitted (fascia_centre p)\<rparr>"
  by (simp add: emitted_fascia_centre) (simp add: fascia_centre_def add_line_def)

lemma emitted_fascia_left:
  "emitted (fascia_left p) =
     (if left_mount p \<noteq> []
      then [Line (intomm (3/16), bottom_mm - 10) (intomm (3/16), top_mm p + 10) fascia_construction]
      else []) @
     left_walk p (left_mm + intomm (1/32)) (intomm (2/32)) (left_mount p) @
     [Line (left_mm + intomm (1/32), walk_exit (intomm (2/32)) (left_mount p))
           (intomm (1/32), top_mm p - intomm (2/32)) fascia]"
  by (simp add: emitted_def fascia_left_def fascia_left_start_def fascia_left_close_def fresh_def
        when_nonempty_def fold_fascia_left_body)

lemma fascia_left_eq:
  "fascia_left p st =
     st\<lparr>msp := msp st @ emitted (fascia_left p),
        last_x := left_mm + intomm (1/32),
        last_y := walk_exit (intomm (2/32)) (left_mount p)\<rparr>"
  by (simp add: emitted_fascia_left)
     (simp add: fascia_left_def fascia_left_start_def fascia_left_close_def when_nonempty_def fold_fascia_left_body add_line_def)

lemma emitted_fascia_right:
  "emitted (fascia_right p) =
     (if right_mount p \<noteq> []
      then [Line (right_mm p - intomm (3/16), bottom_mm - 10)
                 (right_mm p - intomm (3/16), top_mm p + 10) fascia_construction]
      else []) @
     right_walk p (right_mm p - intomm (1/32)) (intomm (2/32)) (right_mount p) @
     [Line (right_mm p - intomm (1/32), walk_exit (intomm (2/32)) (right_mount p))
           (right_mm p - intomm (1/32), top_mm p - intomm (2/32)) fascia]"
  by (simp add: emitted_def fascia_right_def fascia_right_start_def fascia_right_close_def fresh_def
        when_nonempty_def fold_fascia_right_body)

lemma fascia_right_eq:
  "fascia_right p st =
     st\<lparr>msp := msp st @ emitted (fascia_right p),
        last_x := right_mm p - intomm (1/32),
        last_y := walk_exit (intomm (2/32)) (right_mount p)\<rparr>"
  by (simp add: emitted_fascia_right)
     (simp add: fascia_right_def fascia_right_start_def fascia_right_close_def when_nonempty_def fold_fascia_right_body add_line_def)

lemma emitted_decal_centreline:
  "emitted (decal_centreline p) =
     [Line (left_mm - 10, top_mm p - intomm (13/64))
           (right_mm p + 10, top_mm p - intomm (13/64)) decal_construction]"
  by (simp add: emitted_def decal_centreline_def fresh_def)

lemma decal_centreline_eq:
  "decal_centreline p st = st\<lparr>msp := msp st @ emitted (decal_centreline p)\<rparr>"
  by (simp add: emitted_decal_centreline) (simp add: decal_centreline_def add_line_def)

lemma make_panel_eq:
  "make_panel p st =
     \<lparr>msp = emitted (plate_outline p) @ emitted (plate_holes_left p) @
             emitted (plate_holes_right p) @ emitted (fascia_outline p) @
             emitted (fascia_centre p) @ emitted (fascia_left p) @
             emitted (fascia_right p) @ emitted (decal_centreline p),
       last_x = right_mm p - intomm (1/32),
       last_y = walk_exit (intomm (2/32)) (right_mount p)\<rparr>"
  by (simp add: make_panel_def new_drawing_def plate_outline_eq plate_holes_left_eq
        plate_holes_right_eq fascia_outline_eq fascia_centre_eq fascia_left_eq fascia_right_eq
        decal_centreline_eq)

lemma drawing_eq:
  "drawing p =
     emitted (plate_outline p) @ emitted (plate_holes_left p) @
     emitted (plate_holes_right p) @ emitted (fascia_outline p) @
     emitted (fascia_centre p) @ emitted (fascia_left p) @
     emitted (fascia_right p) @ emitted (decal_centreline p)"
  by (simp add: drawing_def emitted_def [of "make_panel p"] make_panel_eq)





lemma near_refl [simp]: "near 0 a a"
  by (simp add: near_def)







lemma backwards_Nil_iff [simp]: "backwards xs = [] \<longleftrightarrow> xs = []"
  by (simp add: backwards_def)



lemma right_pass_tour:
  "zip (on_layer fascia (right_pass p lx ly pos)) right_flags =
    [(Line (lx, ly) (right_mm p - intomm (1/32), fastener_y pos - intomm ((3/16) + (1/16) + (1/32))) fascia, False),
     (Arc (right_mm p - intomm (2/32), fastener_y pos - intomm ((3/16) + (1/16) + (1/32))) (intomm (1/32)) 0 90 fascia, False),
     (Line (right_mm p - intomm (2/32), fastener_y pos - intomm ((3/16) + (1/16)))
          (right_mm p - intomm (3/16), fastener_y pos - intomm ((3/16) + (1/16))) fascia, False),
     (Arc (right_mm p - intomm (3/16), fastener_y pos) (intomm ((3/16) + (1/16))) 90 270 fascia, True),
     (Line (right_mm p - intomm (2/32), fastener_y pos + intomm ((3/16) + (1/16)))
          (right_mm p - intomm (3/16), fastener_y pos + intomm ((3/16) + (1/16))) fascia, True),
     (Arc (right_mm p - intomm (2/32), fastener_y pos + intomm ((3/16) + (1/16) + (1/32))) (intomm (1/32)) 270 0 fascia, False)]"
  by (simp add: right_pass_eq on_layer_def right_flags_def)

lemma left_pass_tour:
  "zip (on_layer fascia (left_pass p lx ly pos)) left_flags =
    [(Line (lx, ly) (left_mm + intomm (1/32), fastener_y pos - intomm ((3/16) + (1/16) + (1/32))) fascia, False),
     (Arc (left_mm + intomm (2/32), fastener_y pos - intomm ((3/16) + (1/16) + (1/32))) (intomm (1/32)) 90 180 fascia, True),
     (Line (left_mm + intomm (2/32), fastener_y pos - intomm ((3/16) + (1/16)))
          (left_mm + intomm (3/16), fastener_y pos - intomm ((3/16) + (1/16))) fascia, False),
     (Arc (intomm (3/16), fastener_y pos) (intomm ((3/16) + (1/16))) 270 90 fascia, False),
     (Line (left_mm + intomm (2/32), fastener_y pos + intomm ((3/16) + (1/16)))
          (left_mm + intomm (3/16), fastener_y pos + intomm ((3/16) + (1/16))) fascia, True),
     (Arc (left_mm + intomm (2/32), fastener_y pos + intomm ((3/16) + (1/16) + (1/32))) (intomm (1/32)) 180 270 fascia, True)]"
  by (simp add: left_pass_eq on_layer_def left_flags_def)



lemma right_tour_Nil_iff [simp]: "right_tour p lx ly ps = [] \<longleftrightarrow> ps = []"
  by (cases ps) (simp_all add: right_pass_tour)

lemma left_tour_Nil_iff [simp]: "left_tour p lx ly ps = [] \<longleftrightarrow> ps = []"
  by (cases ps) (simp_all add: left_pass_tour)











lemma up_right_not_Nil [simp]: "up_right p \<noteq> []"
  by (simp add: up_right_def)

lemma up_left_not_Nil [simp]: "up_left p \<noteq> []"
  by (simp add: up_left_def)














lemma on_layer_append [simp]: "on_layer l (xs @ ys) = on_layer l xs @ on_layer l ys"
  by (simp add: on_layer_def)

lemma on_layer_fascia_plate_loop [simp]:
  "on_layer fascia (concat (map (\<lambda>pos. [Line (f pos) (g pos) plate_construction, Circle (c pos) r plate]) ps)) = []"
  by (induction ps) (simp_all add: on_layer_def)



lemma on_layer_Nil [simp]: "on_layer l [] = []"
  by (simp add: on_layer_def)

lemma on_layer_Cons:
  "on_layer l (q # qs) = (if layer_of q = l then q # on_layer l qs else on_layer l qs)"
  by (simp add: on_layer_def)

lemma on_layer_left_walk:
  "on_layer l (left_walk p lx ly ps) =
     (if l = fascia then map fst (left_tour p lx ly ps)
      else if l = fascia_construction
      then map (\<lambda>pos. Line (left_mm - 10, fastener_y pos) (right_mm p / 2, fastener_y pos)
                  fascia_construction) ps
      else [])"
  by (induction ps arbitrary: ly)
     (auto simp: left_pass_eq left_flags_def on_layer_Cons)

lemma on_layer_right_walk:
  "on_layer l (right_walk p lx ly ps) =
     (if l = fascia then map fst (right_tour p lx ly ps)
      else if l = fascia_construction
      then map (\<lambda>pos. Line (right_mm p / 2, fastener_y pos) (right_mm p + 10, fastener_y pos)
                  fascia_construction) ps
      else [])"
  by (induction ps arbitrary: ly)
     (auto simp: right_pass_eq right_flags_def on_layer_Cons)

lemma on_layer_plate_loop:
  "on_layer l (concat (map (\<lambda>pos.
        [Line (f pos) (g pos) plate_construction, Circle (c pos) r plate]) ps)) =
     (if l = plate_construction then map (\<lambda>pos. Line (f pos) (g pos) plate_construction) ps
      else if l = plate then map (\<lambda>pos. Circle (c pos) r plate) ps
      else [])"
  by (induction ps) (auto simp: on_layer_Cons)

lemmas emitted_sections =
  emitted_plate_outline emitted_plate_holes_left emitted_plate_holes_right
  emitted_fascia_outline emitted_fascia_centre emitted_fascia_left emitted_fascia_right
  emitted_decal_centreline

lemmas on_layer_sections =
  on_layer_Cons on_layer_left_walk on_layer_right_walk on_layer_plate_loop

lemma params_simps [simp]:
  "right_mm (p\<lparr>left_mount := xs\<rparr>) = right_mm p"
  "right_mm (p\<lparr>right_mount := xs\<rparr>) = right_mm p"
  "top_mm (p\<lparr>left_mount := xs\<rparr>) = top_mm p"
  "top_mm (p\<lparr>right_mount := xs\<rparr>) = top_mm p"
  by (simp_all add: right_mm_def top_mm_def)

lemma scenario_A_simps:
  "w_inches scenario_A = 5.75" "h_units scenario_A = 9"
  "left_mount scenario_A = [1, 7]" "right_mount scenario_A = [1, 7]"
  by (simp_all add: scenario_A_def)

lemmas geometry_defs =
  left_mm_def bottom_mm_def right_mm_def top_mm_def intomm_def fastener_y_def rebate_exit_def

lemma drawing_scenario_A:
  "drawing scenario_A =
    [Line (0, 0) (146.05, 0) plate,
     Line (146.05, 0) (146.05, 85.725) plate,
     Line (146.05, 85.725) (0, 85.725) plate,
     Line (0, 85.725) (0, 0) plate,
     Line (4.7625, - 10) (4.7625, 95.725) plate_construction,
     Line (- 10, 14.2875) (73.025, 14.2875) plate_construction,
     Circle (4.7625, 14.2875) 2 plate,
     Line (- 10, 71.4375) (73.025, 71.4375) plate_construction,
     Circle (4.7625, 71.4375) 2 plate,
     Line (141.2875, - 10) (141.2875, 95.725) plate_construction,
     Line (73.025, 14.2875) (156.05, 14.2875) plate_construction,
     Circle (141.2875, 14.2875) 2 plate,
     Line (73.025, 71.4375) (156.05, 71.4375) plate_construction,
     Circle (141.2875, 71.4375) 2 plate,
     Arc (1.5875, 1.5875) 0.79375 180 270 fascia,
     Line (1.5875, 0.79375) (144.4625, 0.79375) fascia,
     Arc (144.4625, 1.5875) 0.79375 270 0 fascia,
     Arc (1.5875, 84.1375) 0.79375 90 180 fascia,
     Line (1.5875, 84.93125) (144.4625, 84.93125) fascia,
     Arc (144.4625, 84.1375) 0.79375 0 90 fascia,
     Line (73.025, - 10) (73.025, 95.725) fascia_construction,
     Line (- 10, 42.8625) (156.05, 42.8625) fascia_construction,
     Line (4.7625, - 10) (4.7625, 95.725) fascia_construction,
     Line (- 10, 14.2875) (73.025, 14.2875) fascia_construction,
     Line (0.79375, 1.5875) (0.79375, 7.14375) fascia,
     Arc (1.5875, 7.14375) 0.79375 90 180 fascia,
     Line (1.5875, 7.9375) (4.7625, 7.9375) fascia,
     Arc (4.7625, 14.2875) 6.35 270 90 fascia,
     Line (1.5875, 20.6375) (4.7625, 20.6375) fascia,
     Arc (1.5875, 21.43125) 0.79375 180 270 fascia,
     Line (- 10, 71.4375) (73.025, 71.4375) fascia_construction,
     Line (0.79375, 21.43125) (0.79375, 64.29375) fascia,
     Arc (1.5875, 64.29375) 0.79375 90 180 fascia,
     Line (1.5875, 65.0875) (4.7625, 65.0875) fascia,
     Arc (4.7625, 71.4375) 6.35 270 90 fascia,
     Line (1.5875, 77.7875) (4.7625, 77.7875) fascia,
     Arc (1.5875, 78.58125) 0.79375 180 270 fascia,
     Line (0.79375, 78.58125) (0.79375, 84.1375) fascia,
     Line (141.2875, - 10) (141.2875, 95.725) fascia_construction,
     Line (73.025, 14.2875) (156.05, 14.2875) fascia_construction,
     Line (145.25625, 1.5875) (145.25625, 7.14375) fascia,
     Arc (144.4625, 7.14375) 0.79375 0 90 fascia,
     Line (144.4625, 7.9375) (141.2875, 7.9375) fascia,
     Arc (141.2875, 14.2875) 6.35 90 270 fascia,
     Line (144.4625, 20.6375) (141.2875, 20.6375) fascia,
     Arc (144.4625, 21.43125) 0.79375 270 0 fascia,
     Line (73.025, 71.4375) (156.05, 71.4375) fascia_construction,
     Line (145.25625, 21.43125) (145.25625, 64.29375) fascia,
     Arc (144.4625, 64.29375) 0.79375 0 90 fascia,
     Line (144.4625, 65.0875) (141.2875, 65.0875) fascia,
     Arc (141.2875, 71.4375) 6.35 90 270 fascia,
     Line (144.4625, 77.7875) (141.2875, 77.7875) fascia,
     Arc (144.4625, 78.58125) 0.79375 270 0 fascia,
     Line (145.25625, 78.58125) (145.25625, 84.1375) fascia,
     Line (- 10, 80.565625) (156.05, 80.565625) decal_construction]"
  by (simp add: drawing_eq emitted_sections scenario_A_simps left_pass_eq right_pass_eq
        geometry_defs)

lemma filter_plate_loop:
  "filter is_circle (concat (map (\<lambda>pos.
        [Line (f pos) (g pos) plate_construction, Circle (c pos) r plate]) ps)) =
     map (\<lambda>pos. Circle (c pos) r plate) ps"
  "filter is_pocket (concat (map (\<lambda>pos.
        [Line (f pos) (g pos) plate_construction, Circle (c pos) r plate]) ps)) = []"
  by (induction ps) simp_all



lemma construction_left_walk:
  "q \<in> set (left_walk p lx ly ps) \<Longrightarrow> is_construction (layer_of q) \<Longrightarrow>
   set ps \<subseteq> set (left_mount p) \<Longrightarrow> fastener_line_left p q"
  by (induction ps arbitrary: ly)
     (auto simp: left_pass_eq is_construction_def left_mm_def)

lemma construction_right_walk:
  "q \<in> set (right_walk p lx ly ps) \<Longrightarrow> is_construction (layer_of q) \<Longrightarrow>
   set ps \<subseteq> set (right_mount p) \<Longrightarrow> fastener_line_right p q"
  by (induction ps arbitrary: ly)
     (auto simp: right_pass_eq is_construction_def)

lemma construction_plate_holes_left:
  "q \<in> set (emitted (plate_holes_left p)) \<Longrightarrow> is_construction (layer_of q) \<Longrightarrow>
   full_vertical p q \<or> fastener_line_left p q"
  by (auto simp: emitted_plate_holes_left is_construction_def left_mm_def bottom_mm_def
        split: if_splits)

lemma construction_plate_holes_right:
  "q \<in> set (emitted (plate_holes_right p)) \<Longrightarrow> is_construction (layer_of q) \<Longrightarrow>
   full_vertical p q \<or> fastener_line_right p q"
  by (auto simp: emitted_plate_holes_right is_construction_def bottom_mm_def
        split: if_splits)

lemma construction_fascia_left:
  "q \<in> set (emitted (fascia_left p)) \<Longrightarrow> is_construction (layer_of q) \<Longrightarrow>
   full_vertical p q \<or> fastener_line_left p q"
  by (auto simp: emitted_fascia_left is_construction_def bottom_mm_def
        split: if_splits dest: construction_left_walk)

lemma construction_fascia_right:
  "q \<in> set (emitted (fascia_right p)) \<Longrightarrow> is_construction (layer_of q) \<Longrightarrow>
   full_vertical p q \<or> fastener_line_right p q"
  by (auto simp: emitted_fascia_right is_construction_def bottom_mm_def
        split: if_splits dest: construction_right_walk)

lemma construction_fixed:
  "q \<in> set (emitted (plate_outline p) @ emitted (fascia_outline p) @ emitted (fascia_centre p) @
            emitted (decal_centreline p)) \<Longrightarrow>
   is_construction (layer_of q) \<Longrightarrow> full_vertical p q \<or> full_horizontal p q"
  by (auto simp: emitted_sections is_construction_def bottom_mm_def left_mm_def)




lemma plate_lines_of_drawing:
  "filter is_line (on_layer plate (drawing p)) = emitted (plate_outline p)"
  by (simp add: drawing_eq emitted_sections on_layer_sections comp_def)


lemma mirrored_walk:
  "list_all2 (mirrored (right_mm p))
     (left_walk p (left_mm + intomm (1/32)) ly ps)
     (right_walk p (right_mm p - intomm (1/32)) ly ps)"
  by (induction ps arbitrary: ly)
     (simp_all add: left_pass_eq right_pass_eq mirrored_def mirror_angle_def left_mm_def
        list_all2_appendI)

lemma mirrored_plate_loop:
  "list_all2 (mirrored (right_mm p))
     (concat (map (\<lambda>pos.
        [Line (left_mm - 10, fastener_y pos) (right_mm p / 2, fastener_y pos) plate_construction,
         Circle (intomm (3/16), fastener_y pos) 2 plate]) ps))
     (concat (map (\<lambda>pos.
        [Line (right_mm p / 2, fastener_y pos) (right_mm p + 10, fastener_y pos) plate_construction,
         Circle (right_mm p - intomm (3/16), fastener_y pos) 2 plate]) ps))"
  by (induction ps) (simp_all add: mirrored_def left_mm_def)

lemma arc_sweep_values:
  "arc_sweep 180 270 = 90" "arc_sweep 270 0 = 90" "arc_sweep 90 180 = 90" "arc_sweep 0 90 = 90"
  "arc_sweep 270 90 = 180" "arc_sweep 90 270 = 180"
  by (simp_all add: arc_sweep_def)

lemma mirror_ray: "mirror_point w (ray c r t) = ray (mirror_point w c) r (180 - t)"
proof -
  obtain x y where c: "c = (x, y)" by (cases c)
  have e: "(180 - t) * pi / 180 = pi - t * pi / 180"
    by (simp add: field_simps)
  have cs: "cos ((180 - t) * pi / 180) = - cos (t * pi / 180)"
    unfolding e by (rule cos_pi_minus)
  have sn: "sin ((180 - t) * pi / 180) = sin (t * pi / 180)"
    unfolding e by (rule sin_pi_minus)
  show ?thesis
    unfolding c ray_def mirror_point.simps fst_conv snd_conv cs sn by simp
qed

lemma ray_periodic: "ray c r (t + 360 * real_of_int k) = ray c r t"
proof -
  have e: "(t + 360 * real_of_int k) * pi / 180 = t * pi / 180 + (2 * pi) * real_of_int k"
    by (simp add: field_simps)
  show ?thesis
    unfolding ray_def e cos_add sin_add cos_int_2pin sin_int_2pin by simp
qed

lemma arc_sweep_mirror: "arc_sweep (mirror_angle b) (mirror_angle a) = arc_sweep a b"
proof -
  have "((180 - a) mod 360 - (180 - b) mod 360 - 1) mod 360 =
        (((180 - a) mod 360 - (180 - b) mod 360) mod 360 - 1) mod 360"
    by (rule mod_diff_left_eq [symmetric])
  also have "\<dots> = (((180 - a) - (180 - b)) mod 360 - 1) mod 360"
    by (simp only: mod_diff_eq)
  also have "\<dots> = ((180 - a) - (180 - b) - 1) mod 360"
    by (rule mod_diff_left_eq)
  also have "\<dots> = (b - a - 1) mod 360"
    by simp
  finally show ?thesis by (simp add: arc_sweep_def mirror_angle_def)
qed

lemma mirror_angle_shift: "\<exists>k. real_of_int (mirror_angle b) = 180 - real_of_int b + 360 * real_of_int k"
proof -
  have "(180 - b) mod 360 = (180 - b) - 360 * ((180 - b) div 360)"
    by (simp add: minus_mult_div_eq_mod)
  then have "real_of_int (mirror_angle b) = 180 - real_of_int b + 360 * real_of_int (- ((180 - b) div 360))"
    by (simp add: mirror_angle_def)
  then show ?thesis by blast
qed

lemma arc_sweep_shift: "\<exists>k. real_of_int (arc_sweep a b) = real_of_int b - real_of_int a + 360 * real_of_int k"
proof -
  have "(b - a - 1) mod 360 = (b - a - 1) - 360 * ((b - a - 1) div 360)"
    by (simp add: minus_mult_div_eq_mod)
  then have "real_of_int (arc_sweep a b) = real_of_int b - real_of_int a + 360 * real_of_int (- ((b - a - 1) div 360))"
    by (simp add: arc_sweep_def)
  then show ?thesis by blast
qed

lemma points_of_mirror_line:
  "points_of (mirror_prim w (Line a b l)) = mirror_point w ` points_of (Line a b l)"
  by (cases a; cases b) (simp add: image_image algebra_simps)

lemma points_of_flip_line: "points_of (Line b a l) = points_of (Line a b l)"
proof -
  have sub: "points_of (Line b a l) \<subseteq> points_of (Line a b l)" for a b :: point
  proof
    fix x
    assume "x \<in> points_of (Line b a l)"
    then obtain t where t: "0 \<le> t" "t \<le> 1"
      and x: "x = (fst b + t * (fst a - fst b), snd b + t * (snd a - snd b))"
      by auto
    have "x = (fst a + (1 - t) * (fst b - fst a), snd a + (1 - t) * (snd b - snd a))"
      unfolding x by (simp add: algebra_simps)
    moreover have "1 - t \<in> {0..1}"
      using t by simp
    ultimately show "x \<in> points_of (Line a b l)"
      unfolding points_of.simps by (rule image_eqI)
  qed
  show ?thesis using sub [of a b] sub [of b a] by blast
qed

lemma image_reflect: "(\<lambda>t::real. 180 - t) ` {x..y} = {180 - y .. 180 - x}"
  by (rule image_diff_atLeastAtMost)

lemma image_shift: "(\<lambda>t::real. t + d) ` {x..y} = {x + d .. y + d}"
  by (rule image_add_atLeastAtMost')

lemma mirror_ray_image:
  "mirror_point w ` ray c r ` S = ray (mirror_point w c) r ` ((\<lambda>t. 180 - t) ` S)"
  by (simp only: image_image mirror_ray)

lemma ray_shift_image: "ray c r ` ((\<lambda>t. t + 360 * real_of_int m) ` S) = ray c r ` S"
  by (simp only: image_image ray_periodic)

lemma points_of_mirror_arc:
  "points_of (mirror_prim w (Arc c r a b l)) = mirror_point w ` points_of (Arc c r a b l)"
proof -
  let ?s = "real_of_int (arc_sweep a b)"
  let ?c = "mirror_point w c"
  obtain k where k: "real_of_int (mirror_angle b) = 180 - real_of_int b + 360 * real_of_int k"
    using mirror_angle_shift by blast
  obtain j where j: "?s = real_of_int b - real_of_int a + 360 * real_of_int j"
    using arc_sweep_shift by blast
  define m where "m = k + j"
  have lo: "180 - (real_of_int a + ?s) + 360 * real_of_int m = real_of_int (mirror_angle b)"
    unfolding k j m_def by simp
  have hi: "180 - real_of_int a + 360 * real_of_int m = real_of_int (mirror_angle b) + ?s"
    using lo by simp
  have "mirror_point w ` points_of (Arc c r a b l) =
        ray ?c r ` {180 - (real_of_int a + ?s) .. 180 - real_of_int a}"
    unfolding points_of.simps mirror_ray_image image_reflect ..
  also have "\<dots> = ray ?c r ` ((\<lambda>t. t + 360 * real_of_int m) `
                       {180 - (real_of_int a + ?s) .. 180 - real_of_int a})"
    by (rule ray_shift_image [symmetric])
  also have "\<dots> = ray ?c r ` {real_of_int (mirror_angle b) .. real_of_int (mirror_angle b) + ?s}"
    unfolding image_shift lo hi ..
  also have "\<dots> = points_of (mirror_prim w (Arc c r a b l))"
    unfolding mirror_prim.simps points_of.simps arc_sweep_mirror ..
  finally show ?thesis ..
qed

lemma range_reflect: "range (\<lambda>t::real. 180 - t) = UNIV"
proof -
  have "x \<in> range (\<lambda>t::real. 180 - t)" for x :: real
    by (rule range_eqI [of _ _ "180 - x"]) simp
  then show ?thesis by blast
qed

lemma points_of_mirror_circle:
  "points_of (mirror_prim w (Circle c r l)) = mirror_point w ` points_of (Circle c r l)"
  unfolding mirror_prim.simps points_of.simps mirror_ray_image range_reflect ..

lemma points_of_mirror: "points_of (mirror_prim w q) = mirror_point w ` points_of q"
  by (cases q) (simp_all only: points_of_mirror_line points_of_mirror_arc points_of_mirror_circle)

lemma same_points_points_of: "same_points q q' \<Longrightarrow> points_of q = points_of q'"
  by (cases q; cases q') (auto simp only: same_points.simps points_of_flip_line primitive.simps)

lemma mirrored_points_of: "mirrored w q q' \<Longrightarrow> points_of q' = mirror_point w ` points_of q"
  unfolding mirrored_def
  using same_points_points_of [of "mirror_prim w q" q'] points_of_mirror [of w q]
  by simp

lemma arc_point_ray: "arc_point c r a = ray c r (real_of_int a)"
  by (simp add: arc_point_def ray_def)

lemma layer_of_mirror_prim [simp]: "layer_of (mirror_prim w q) = layer_of q"
  by (cases q) simp_all

lemma same_points_layer_of: "same_points q q' \<Longrightarrow> layer_of q = layer_of q'"
  by (cases q; cases q') auto

lemma mirrored_reflects: "mirrored w q q' \<Longrightarrow> reflects w q q'"
  using same_points_layer_of [of "mirror_prim w q" q'] mirrored_points_of [of w q q']
  by (simp add: reflects_def mirrored_def)

lemma list_all2_mirrored_reflects:
  "list_all2 (mirrored w) xs ys \<Longrightarrow> list_all2 (reflects w) xs ys"
  by (erule list_all2_mono) (rule mirrored_reflects)

lemma steps_checked_plain:
  "steps_checked (plain f # fs) st = steps_checked fs (f st)"
  by (simp add: plain_def)

lemma for_each_converting:
  "for_each (\<lambda>x. converting x (f x)) xs st =
     (if list_all fits_double xs then Inr (fold f xs st) else Inl OverflowError)"
  unfolding for_each_def
  by (induction xs arbitrary: st) (simp_all add: converting_def to_float_def)

lemma plate_holes_left_checked_eq:
  "plate_holes_left_checked p st =
     (if list_all fits_double (left_mount p) then Inr (plate_holes_left p st)
      else Inl OverflowError)"
  by (simp add: plate_holes_left_checked_def plate_holes_left_def plain_def
        for_each_converting)

lemma plate_holes_right_checked_eq:
  "plate_holes_right_checked p st =
     (if list_all fits_double (right_mount p) then Inr (plate_holes_right p st)
      else Inl OverflowError)"
  by (simp add: plate_holes_right_checked_def plate_holes_right_def plain_def
        for_each_converting)

lemma fascia_left_checked_eq:
  "fascia_left_checked p st =
     (if list_all fits_double (left_mount p) then Inr (fascia_left p st)
      else Inl OverflowError)"
  by (simp add: fascia_left_checked_def fascia_left_def plain_def
        for_each_converting)

lemma fascia_right_checked_eq:
  "fascia_right_checked p st =
     (if list_all fits_double (right_mount p) then Inr (fascia_right p st)
      else Inl OverflowError)"
  by (simp add: fascia_right_checked_def fascia_right_def plain_def
        for_each_converting)

lemma dimensions_checked_eq:
  "dimensions_checked p st = (if fits_double (h_units p) then Inr st else Inl OverflowError)"
  by (simp add: dimensions_checked_def converting_def to_float_def)

lemma make_panel_checked_eq:
  "make_panel_checked p st =
     (if ints_fit p then Inr (make_panel p st) else Inl OverflowError)"
  by (simp add: make_panel_checked_def make_panel_def dimensions_checked_eq
        plate_holes_left_checked_eq plate_holes_right_checked_eq fascia_left_checked_eq
        fascia_right_checked_eq ints_fit_def plain_def)

lemma run_script_eq:
  "run_script p = (if ints_fit p then Inr (drawing p) else Inl OverflowError)"
  by (simp add: run_script_def make_panel_checked_eq drawing_def emitted_def)

lemma fits_double_small: "\<bar>n\<bar> \<le> 1000 \<Longrightarrow> fits_double n"
proof -
  have "(1000::int) < 2 ^ 1024 - 2 ^ 970" by simp
  then show "\<bar>n\<bar> \<le> 1000 \<Longrightarrow> fits_double n"
    unfolding fits_double_def by linarith
qed

lemma pockets_left_walk:
  "filter is_pocket (left_walk p lx ly ps) =
     map (\<lambda>pos. Arc (intomm (3/16), fastener_y pos) (intomm ((3/16) + (1/16))) 270 90 fascia) ps"
  by (induction ps arbitrary: ly) (simp_all add: left_pass_eq intomm_def)

lemma pockets_right_walk:
  "filter is_pocket (right_walk p lx ly ps) =
     map (\<lambda>pos. Arc (right_mm p - intomm (3/16), fastener_y pos) (intomm ((3/16) + (1/16))) 90 270
            fascia) ps"
  by (induction ps arbitrary: ly) (simp_all add: right_pass_eq intomm_def)

lemma walk_exit_last: "walk_exit ly ps = last (ly # map rebate_exit ps)"
  by (induction ps arbitrary: ly) simp_all

lemma left_walk_in_order:
  "on_layer fascia (left_walk p lx ly ps) =
     concat (map (\<lambda>(y, pos). on_layer fascia (left_pass p lx y pos))
       (zip (ly # map rebate_exit ps) ps))"
  by (induction ps arbitrary: ly) simp_all

lemma right_walk_in_order:
  "on_layer fascia (right_walk p lx ly ps) =
     concat (map (\<lambda>(y, pos). on_layer fascia (right_pass p lx y pos))
       (zip (ly # map rebate_exit ps) ps))"
  by (induction ps arbitrary: ly) simp_all

lemma length_walks:
  "length (left_walk p lx ly ps) = 7 * length ps"
  "length (right_walk p lx ly ps) = 7 * length ps"
  by (induction ps arbitrary: ly) (simp_all add: left_pass_eq right_pass_eq)

lemma length_plate_loop:
  "length (concat (map (\<lambda>pos. [f pos, g pos]) ps)) = 2 * length ps"
  by (induction ps) simp_all

lemma length_drawing:
  "length (drawing p) =
     15 + (if left_mount p = [] then 0 else 2) + 9 * length (left_mount p) +
          (if right_mount p = [] then 0 else 2) + 9 * length (right_mount p)"
  by (simp add: drawing_eq emitted_sections length_walks length_plate_loop)

lemma pockets_of_drawing:
  "filter is_pocket (drawing p) =
     map (\<lambda>pos. Arc (intomm (3/16), fastener_y pos) (intomm ((3/16) + (1/16))) 270 90 fascia)
       (left_mount p) @
     map (\<lambda>pos. Arc (right_mm p - intomm (3/16), fastener_y pos) (intomm ((3/16) + (1/16))) 90 270
            fascia) (right_mount p)"
  by (simp add: drawing_eq emitted_sections filter_plate_loop pockets_left_walk pockets_right_walk)
     (simp add: intomm_def)

lemma fascia_left_in_order:
  "on_layer fascia (emitted (fascia_left p)) =
     concat (map (\<lambda>(y, pos). on_layer fascia (left_pass p (left_mm + intomm (1/32)) y pos))
       (zip (intomm (2/32) # map rebate_exit (left_mount p)) (left_mount p))) @
     [Line (left_mm + intomm (1/32), last (intomm (2/32) # map rebate_exit (left_mount p)))
           (intomm (1/32), top_mm p - intomm (2/32)) fascia]"
  by (simp add: emitted_fascia_left on_layer_Cons left_walk_in_order walk_exit_last
        del: last.simps)

lemma fascia_right_in_order:
  "on_layer fascia (emitted (fascia_right p)) =
     concat (map (\<lambda>(y, pos). on_layer fascia (right_pass p (right_mm p - intomm (1/32)) y pos))
       (zip (intomm (2/32) # map rebate_exit (right_mount p)) (right_mount p))) @
     [Line (right_mm p - intomm (1/32), last (intomm (2/32) # map rebate_exit (right_mount p)))
           (right_mm p - intomm (1/32), top_mm p - intomm (2/32)) fascia]"
  by (simp add: emitted_fascia_right on_layer_Cons right_walk_in_order walk_exit_last
        del: last.simps)

lemma ints_fit_scenarios: "ints_fit scenario_A" "ints_fit scenario_C" "ints_fit scenario_D"
  by (simp_all add: ints_fit_def scenario_A_def scenario_C_def scenario_D_def fits_double_def)

lemma run_script_overflow: "run_script (p\<lparr>h_units := 10 ^ 309\<rparr>) = Inl OverflowError"
  by (simp add: run_script_eq ints_fit_def fits_double_def)

section \<open>The properties\<close>

subsection \<open>The decal layers\<close>


subsection \<open>Determinism\<close>

text \<open>
  Claim C8. A run is a function of the parameters and of the interpreter state it starts
  from. The state it ends in, model space included, is the same from any two starting
  states: it depends on the parameters only, and the model space is the drawing of those
  parameters, primitive by primitive and in the same order.
\<close>

theorem run_depends_on_parameters_only:
  "make_panel p st1 = make_panel p st2 \<and> msp (make_panel p st1) = drawing p"
  by (simp add: make_panel_eq drawing_eq)

subsection \<open>Contours\<close>




subsection \<open>The script's own panel\<close>

text \<open>
  Claim C2, as stated: width 5.75 in, height 9 units, fasteners at 1 and 7 on both sides,
  with plate holes at \<open>y \<approx> 18.256\<close> and \<open>y \<approx> 70.4625\<close>. No circle of the drawing has its
  centre within half a millimetre of either height.
\<close>

theorem scenario_A_holes_counterexample:
  "\<not> list_ex (hole_near 18.256 (1/2)) (drawing scenario_A) \<and>
   \<not> list_ex (hole_near 70.4625 (1/2)) (drawing scenario_A)"
  by (simp add: drawing_scenario_A)

text \<open>
  Claim C2, amended. For that panel the lines of the plate layer are the rectangle from
  \<open>(0, 0)\<close> to \<open>(146.05, 85.725)\<close>; each side of the fascia has exactly two rebates; and each
  side has two plate holes of radius 2 at \<open>y = 14.2875\<close> and \<open>y = 71.4375\<close>, the values of
  \<open>pos * 9.525 + 4.7625\<close> at 1 and 7.
\<close>

theorem scenario_A_layout:
  "filter is_line (on_layer plate (drawing scenario_A)) =
     [Line (0, 0) (146.05, 0) plate,
      Line (146.05, 0) (146.05, 85.725) plate,
      Line (146.05, 85.725) (0, 85.725) plate,
      Line (0, 85.725) (0, 0) plate] \<and>
   filter is_pocket (emitted (fascia_left scenario_A)) =
     [Arc (4.7625, 14.2875) 6.35 270 90 fascia, Arc (4.7625, 71.4375) 6.35 270 90 fascia] \<and>
   filter is_pocket (emitted (fascia_right scenario_A)) =
     [Arc (141.2875, 14.2875) 6.35 90 270 fascia, Arc (141.2875, 71.4375) 6.35 90 270 fascia] \<and>
   filter is_pocket (drawing scenario_A) =
     filter is_pocket (emitted (fascia_left scenario_A)) @
     filter is_pocket (emitted (fascia_right scenario_A)) \<and>
   filter is_circle (emitted (plate_holes_left scenario_A)) =
     [Circle (4.7625, 14.2875) 2 plate, Circle (4.7625, 71.4375) 2 plate] \<and>
   filter is_circle (emitted (plate_holes_right scenario_A)) =
     [Circle (141.2875, 14.2875) 2 plate, Circle (141.2875, 71.4375) 2 plate] \<and>
   filter is_circle (drawing scenario_A) =
     filter is_circle (emitted (plate_holes_left scenario_A)) @
     filter is_circle (emitted (plate_holes_right scenario_A)) \<and>
   fastener_y 1 = 1 * 9.525 + 4.7625 \<and> fastener_y 1 = 14.2875 \<and>
   fastener_y 7 = 7 * 9.525 + 4.7625 \<and> fastener_y 7 = 71.4375"
  by (simp add: drawing_scenario_A on_layer_Cons)
     (simp add: emitted_sections scenario_A_simps left_pass_eq right_pass_eq geometry_defs)

subsection \<open>Plate holes\<close>



subsection \<open>Mirror symmetry\<close>

text \<open>
  Claim C4. When both sides list the same positions, reflection in the vertical midline of
  the plate takes the plate holes and construction lines of the left side, the left side of
  the fascia and the two left corners, primitive by primitive, to those of the right side.
  This holds of the stored data (\<open>mirrored\<close>: a line may have its ends swapped, and an arc
  from \<open>a\<close> to \<open>b\<close> becomes the arc from \<open>180 - b\<close> to \<open>180 - a\<close>) and of the sets of
  points (\<open>reflects\<close>).
\<close>

theorem right_side_mirrors_left:
  assumes "left_mount p = right_mount p"
  shows "list_all2 (mirrored (right_mm p))
           (emitted (plate_holes_left p)) (emitted (plate_holes_right p)) \<and>
         list_all2 (reflects (right_mm p))
           (emitted (plate_holes_left p)) (emitted (plate_holes_right p)) \<and>
         list_all2 (mirrored (right_mm p))
           (emitted (fascia_left p)) (emitted (fascia_right p)) \<and>
         list_all2 (reflects (right_mm p))
           (emitted (fascia_left p)) (emitted (fascia_right p)) \<and>
         list_all2 (mirrored (right_mm p))
           [emitted (fascia_outline p) ! 0, emitted (fascia_outline p) ! 3]
           [emitted (fascia_outline p) ! 2, emitted (fascia_outline p) ! 5] \<and>
         list_all2 (reflects (right_mm p))
           [emitted (fascia_outline p) ! 0, emitted (fascia_outline p) ! 3]
           [emitted (fascia_outline p) ! 2, emitted (fascia_outline p) ! 5]"
proof -
  have a: "list_all2 (mirrored (right_mm p))
           (emitted (plate_holes_left p)) (emitted (plate_holes_right p))"
    using assms mirrored_plate_loop [of p "right_mount p"]
    by (simp add: emitted_plate_holes_left emitted_plate_holes_right list_all2_appendI
          mirrored_def)
  have b: "list_all2 (mirrored (right_mm p))
           (emitted (fascia_left p)) (emitted (fascia_right p))"
    using assms mirrored_walk [of p "intomm (2/32)" "right_mount p"]
    by (simp add: emitted_fascia_left emitted_fascia_right list_all2_appendI mirrored_def
          left_mm_def)
  have c: "list_all2 (mirrored (right_mm p))
           [emitted (fascia_outline p) ! 0, emitted (fascia_outline p) ! 3]
           [emitted (fascia_outline p) ! 2, emitted (fascia_outline p) ! 5]"
    by (simp add: emitted_fascia_outline mirrored_def mirror_angle_def)
  note a' = list_all2_mirrored_reflects [OF a]
    and b' = list_all2_mirrored_reflects [OF b]
    and c' = list_all2_mirrored_reflects [OF c]
  show ?thesis
    by (intro conjI) (rule a a' b b' c c')+
qed

theorem right_side_mirrors_left_witness:
  "left_mount scenario_A = right_mount scenario_A \<and>
   list_all2 (mirrored (right_mm scenario_A))
     (emitted (fascia_left scenario_A)) (emitted (fascia_right scenario_A)) \<and>
   list_all2 (reflects (right_mm scenario_A))
     (emitted (fascia_left scenario_A)) (emitted (fascia_right scenario_A)) \<and>
   length (emitted (fascia_left scenario_A)) = 16 \<and>
   mirrored 146.05 (Arc (4.7625, 14.2875) 6.35 270 90 fascia)
                   (Arc (141.2875, 14.2875) 6.35 90 270 fascia)"
proof -
  have e: "left_mount scenario_A = right_mount scenario_A"
    by (simp add: scenario_A_simps)
  have "length (emitted (fascia_left scenario_A)) = 16"
    by (simp add: emitted_fascia_left scenario_A_simps left_pass_eq)
  moreover have "mirrored 146.05 (Arc (4.7625, 14.2875) 6.35 270 90 fascia)
                   (Arc (141.2875, 14.2875) 6.35 90 270 fascia)"
    by (simp add: mirrored_def mirror_angle_def)
  ultimately show ?thesis using right_side_mirrors_left [OF e] e by simp
qed

subsection \<open>A panel without fasteners\<close>


subsection \<open>Validation\<close>

text \<open>
  Claim C6, as stated: a list that is not strictly ascending makes the run raise
  \<open>InvalidFastenerPosition\<close> before anything is drawn. With the left positions 7 and 1 the
  run ends with its drawing, in which the fascia goes down from the rebate at 7 to the
  rebate at 1.
\<close>

theorem unsorted_positions_counterexample:
  "\<not> valid_positions (h_units scenario_C) (left_mount scenario_C) \<and>
   run_script scenario_C \<noteq> Inl InvalidFastenerPosition \<and>
   run_script scenario_C = Inr (drawing scenario_C) \<and>
   Line (0.79375, 78.58125) (0.79375, 7.14375) fascia \<in> set (drawing scenario_C)"
proof -
  have "\<not> valid_positions (h_units scenario_C) (left_mount scenario_C)"
    by (simp add: valid_positions_def scenario_C_def)
  moreover have "run_script scenario_C = Inr (drawing scenario_C)"
    by (simp add: run_script_eq ints_fit_scenarios)
  moreover have "Line (0.79375, 78.58125) (0.79375, 7.14375) fascia \<in> set (drawing scenario_C)"
    by (simp add: scenario_C_def drawing_eq emitted_sections left_pass_eq right_pass_eq
          geometry_defs)
  ultimately show ?thesis by simp
qed

text \<open>
  Claim C6, amended. For every input in which a list is not strictly ascending, or has a
  position that is not inside \<open>(0, height)\<close>: the run does not raise
  \<open>InvalidFastenerPosition\<close>. It ends with the drawing when every integer parameter
  converts to a double, and with \<^verbatim>\<open>OverflowError\<close> otherwise. In the drawing the walls
  of the rebates are one per listed position, in the order of the lists, left side first;
  and the fascia primitives of each side are the rebate sequences of the listed positions
  in the order of the list, each starting where the one before ended (the first at the
  bottom corner), followed by the line to the top corner.
\<close>

theorem no_position_check:
  assumes "\<not> valid_positions (h_units p) (left_mount p) \<or>
           \<not> valid_positions (h_units p) (right_mount p)"
  shows "run_script p = (if ints_fit p then Inr (drawing p) else Inl OverflowError) \<and>
         run_script p \<noteq> Inl InvalidFastenerPosition \<and>
         filter is_pocket (drawing p) =
           map (\<lambda>pos. Arc (intomm (3/16), fastener_y pos) (intomm ((3/16) + (1/16))) 270 90 fascia)
             (left_mount p) @
           map (\<lambda>pos. Arc (right_mm p - intomm (3/16), fastener_y pos)
                  (intomm ((3/16) + (1/16))) 90 270 fascia)
             (right_mount p) \<and>
         on_layer fascia (emitted (fascia_left p)) =
           concat (map (\<lambda>(y, pos). on_layer fascia (left_pass p (left_mm + intomm (1/32)) y pos))
             (zip (intomm (2/32) # map rebate_exit (left_mount p)) (left_mount p))) @
           [Line (left_mm + intomm (1/32), last (intomm (2/32) # map rebate_exit (left_mount p)))
                 (intomm (1/32), top_mm p - intomm (2/32)) fascia] \<and>
         on_layer fascia (emitted (fascia_right p)) =
           concat (map (\<lambda>(y, pos). on_layer fascia (right_pass p (right_mm p - intomm (1/32)) y pos))
             (zip (intomm (2/32) # map rebate_exit (right_mount p)) (right_mount p))) @
           [Line (right_mm p - intomm (1/32), last (intomm (2/32) # map rebate_exit (right_mount p)))
                 (right_mm p - intomm (1/32), top_mm p - intomm (2/32)) fascia]"
proof -
  have "run_script p \<noteq> Inl InvalidFastenerPosition"
    by (simp add: run_script_eq)
  then show ?thesis
    using run_script_eq [of p] pockets_of_drawing [of p] fascia_left_in_order [of p]
      fascia_right_in_order [of p]
    by blast
qed

theorem no_position_check_witness:
  "\<not> valid_positions (h_units scenario_C) (left_mount scenario_C) \<and>
   ints_fit scenario_C \<and>
   run_script scenario_C = Inr (drawing scenario_C) \<and>
   filter is_pocket (drawing scenario_C) =
     [Arc (4.7625, 71.4375) 6.35 270 90 fascia, Arc (4.7625, 14.2875) 6.35 270 90 fascia,
      Arc (141.2875, 14.2875) 6.35 90 270 fascia, Arc (141.2875, 71.4375) 6.35 90 270 fascia]"
proof -
  have v: "\<not> valid_positions (h_units scenario_C) (left_mount scenario_C) \<or>
           \<not> valid_positions (h_units scenario_C) (right_mount scenario_C)"
    by (simp add: valid_positions_def scenario_C_def)
  have n: "\<not> valid_positions (h_units scenario_C) (left_mount scenario_C)"
    by (simp add: valid_positions_def scenario_C_def)
  have m: "left_mount scenario_C = [7, 1]" "right_mount scenario_C = [1, 7]"
    "right_mm scenario_C = 146.05"
    by (simp_all add: scenario_C_def right_mm_def intomm_def)
  from no_position_check [OF v] have
    "run_script scenario_C = (if ints_fit scenario_C then Inr (drawing scenario_C) else Inl OverflowError)"
    and "filter is_pocket (drawing scenario_C) =
           map (\<lambda>pos. Arc (intomm (3/16), fastener_y pos) (intomm ((3/16) + (1/16))) 270 90 fascia)
             (left_mount scenario_C) @
           map (\<lambda>pos. Arc (right_mm scenario_C - intomm (3/16), fastener_y pos)
                  (intomm ((3/16) + (1/16))) 90 270 fascia)
             (right_mount scenario_C)"
    by blast+
  then show ?thesis
    using n by (simp add: ints_fit_scenarios m intomm_def fastener_y_def)
qed

text \<open>
  Claim C7, as stated: a width or a height that is not positive makes the run raise
  \<open>InvalidDimension\<close> before any geometry is built. With height 0 the run ends with its
  drawing, whose plate outline is flat.
\<close>

theorem zero_height_counterexample:
  "h_units scenario_D \<le> 0 \<and>
   run_script scenario_D \<noteq> Inl InvalidDimension \<and>
   run_script scenario_D = Inr (drawing scenario_D) \<and>
   take 4 (drawing scenario_D) =
     [Line (0, 0) (146.05, 0) plate,
      Line (146.05, 0) (146.05, 0) plate,
      Line (146.05, 0) (0, 0) plate,
      Line (0, 0) (0, 0) plate]"
proof -
  have "run_script scenario_D = Inr (drawing scenario_D)"
    by (simp add: run_script_eq ints_fit_scenarios)
  moreover have "take 4 (drawing scenario_D) =
     [Line (0, 0) (146.05, 0) plate,
      Line (146.05, 0) (146.05, 0) plate,
      Line (146.05, 0) (0, 0) plate,
      Line (0, 0) (0, 0) plate]"
    by (simp add: scenario_D_def drawing_eq emitted_sections geometry_defs)
  moreover have "h_units scenario_D \<le> 0"
    by (simp add: scenario_D_def)
  ultimately show ?thesis by simp
qed

text \<open>
  Claim C7, amended. For every input whose width or height is not positive: the run does not
  raise \<open>InvalidDimension\<close>. It ends with the drawing when every integer parameter converts
  to a double, and with \<^verbatim>\<open>OverflowError\<close> otherwise. The whole geometry is built from
  the dimensions as they are given: the drawing has as many primitives as for any other
  panel with the same lists, and its plate outline runs from \<open>(0, 0)\<close> to \<open>(right, top)\<close>
  with \<open>right \<le> 0\<close> or \<open>top \<le> 0\<close>.
\<close>

theorem no_dimension_check:
  assumes "w_inches p \<le> 0 \<or> h_units p \<le> 0"
  shows "run_script p = (if ints_fit p then Inr (drawing p) else Inl OverflowError) \<and>
         run_script p \<noteq> Inl InvalidDimension \<and>
         filter is_line (on_layer plate (drawing p)) =
           [Line (0, 0) (right_mm p, 0) plate,
            Line (right_mm p, 0) (right_mm p, top_mm p) plate,
            Line (right_mm p, top_mm p) (0, top_mm p) plate,
            Line (0, top_mm p) (0, 0) plate] \<and>
         (right_mm p \<le> 0 \<or> top_mm p \<le> 0) \<and>
         length (drawing p) =
           15 + (if left_mount p = [] then 0 else 2) + 9 * length (left_mount p) +
                (if right_mount p = [] then 0 else 2) + 9 * length (right_mount p)"
proof -
  have "run_script p \<noteq> Inl InvalidDimension"
    by (simp add: run_script_eq)
  moreover have "filter is_line (on_layer plate (drawing p)) =
           [Line (0, 0) (right_mm p, 0) plate,
            Line (right_mm p, 0) (right_mm p, top_mm p) plate,
            Line (right_mm p, top_mm p) (0, top_mm p) plate,
            Line (0, top_mm p) (0, 0) plate]"
    by (simp add: plate_lines_of_drawing emitted_plate_outline left_mm_def bottom_mm_def)
  moreover have "right_mm p \<le> 0 \<or> top_mm p \<le> 0"
    using assms by (auto simp: right_mm_def top_mm_def intomm_def mult_le_0_iff)
  ultimately show ?thesis
    using run_script_eq [of p] length_drawing [of p] by blast
qed

theorem no_dimension_check_witness:
  "h_units scenario_D \<le> 0 \<and> ints_fit scenario_D \<and>
   run_script scenario_D = Inr (drawing scenario_D) \<and>
   top_mm scenario_D \<le> 0 \<and> \<not> right_mm scenario_D \<le> 0 \<and>
   length (drawing scenario_D) = 15"
proof -
  have h: "w_inches scenario_D \<le> 0 \<or> h_units scenario_D \<le> 0"
    by (simp add: scenario_D_def)
  have r: "\<not> right_mm scenario_D \<le> 0" "h_units scenario_D \<le> 0"
    "left_mount scenario_D = []" "right_mount scenario_D = []"
    by (simp_all add: scenario_D_def right_mm_def intomm_def)
  from no_dimension_check [OF h] have
    "run_script scenario_D = (if ints_fit scenario_D then Inr (drawing scenario_D) else Inl OverflowError)"
    and "right_mm scenario_D \<le> 0 \<or> top_mm scenario_D \<le> 0"
    and "length (drawing scenario_D) =
           15 + (if left_mount scenario_D = [] then 0 else 2) + 9 * length (left_mount scenario_D) +
                (if right_mount scenario_D = [] then 0 else 2) + 9 * length (right_mount scenario_D)"
    by blast+
  then show ?thesis
    using r by (simp add: ints_fit_scenarios)
qed

subsection \<open>Construction lines\<close>

text \<open>
  Claim C9. Every primitive on a construction layer is a line of one of four shapes:
  vertical from \<open>y = - 10\<close> to \<open>y = top + 10\<close>; horizontal from \<open>x = - 10\<close> to
  \<open>x = right + 10\<close>; or horizontal at the height of a fastener, from \<open>x = - 10\<close> to the
  midline for the left side and from the midline to \<open>x = right + 10\<close> for the right side.
\<close>

theorem construction_lines_overshoot:
  "\<forall>q \<in> set (drawing p). is_construction (layer_of q) \<longrightarrow>
     full_vertical p q \<or> full_horizontal p q \<or> fastener_line_left p q \<or> fastener_line_right p q"
proof (intro ballI impI)
  fix q
  assume q: "q \<in> set (drawing p)" and c: "is_construction (layer_of q)"
  from q consider
      "q \<in> set (emitted (plate_outline p) @ emitted (fascia_outline p) @
                emitted (fascia_centre p) @ emitted (decal_centreline p))"
    | "q \<in> set (emitted (plate_holes_left p))"
    | "q \<in> set (emitted (plate_holes_right p))"
    | "q \<in> set (emitted (fascia_left p))"
    | "q \<in> set (emitted (fascia_right p))"
    unfolding drawing_eq set_append by blast
  then show "full_vertical p q \<or> full_horizontal p q \<or> fastener_line_left p q \<or>
             fastener_line_right p q"
  proof cases
    case 1
    then show ?thesis using construction_fixed c by blast
  next
    case 2
    then show ?thesis using construction_plate_holes_left c by blast
  next
    case 3
    then show ?thesis using construction_plate_holes_right c by blast
  next
    case 4
    then show ?thesis using construction_fascia_left c by blast
  next
    case 5
    then show ?thesis using construction_fascia_right c by blast
  qed
qed

theorem construction_lines_overshoot_witness:
  "Line (- 10, 14.2875) (73.025, 14.2875) plate_construction \<in> set (drawing scenario_A) \<and>
   is_construction plate_construction \<and>
   fastener_line_left scenario_A (Line (- 10, 14.2875) (73.025, 14.2875) plate_construction) \<and>
   \<not> full_vertical scenario_A (Line (- 10, 14.2875) (73.025, 14.2875) plate_construction) \<and>
   \<not> full_horizontal scenario_A (Line (- 10, 14.2875) (73.025, 14.2875) plate_construction) \<and>
   \<not> fastener_line_right scenario_A (Line (- 10, 14.2875) (73.025, 14.2875) plate_construction)"
proof -
  let ?q = "Line (- 10, 14.2875) (73.025, 14.2875) plate_construction"
  have m: "?q \<in> set (drawing scenario_A)"
    by (simp add: drawing_scenario_A)
  have c: "is_construction (layer_of ?q)"
    by (simp add: is_construction_def)
  have n: "\<not> full_vertical scenario_A ?q" "\<not> full_horizontal scenario_A ?q"
    "\<not> fastener_line_right scenario_A ?q"
    by (simp_all add: right_mm_def intomm_def scenario_A_simps)
  from construction_lines_overshoot [of scenario_A] m c
  have "full_vertical scenario_A ?q \<or> full_horizontal scenario_A ?q \<or>
        fastener_line_left scenario_A ?q \<or> fastener_line_right scenario_A ?q"
    by blast
  with n have "fastener_line_left scenario_A ?q" by blast
  with m n show ?thesis by (simp add: is_construction_def)
qed

end
